theory Spec2Isabelle
  imports Complex_Main "HOL-Library.Word"
begin

section \<open>JavaScript strings\<close>

text \<open>
  The front end is TypeScript. A JavaScript string is a sequence of UTF-16 code units;
  string literals of the source are written through \<open>js\<close>. \<open>js_trim\<close> is
  \<^verbatim>\<open>String.prototype.trim\<close>: it strips the ECMAScript WhiteSpace and LineTerminator
  code points from both ends. A string is truthy when it is not empty.
\<close>

type_synonym jsstring = "16 word list"

definition js :: "string \<Rightarrow> jsstring" where
  "js s = map (\<lambda>c. of_nat (of_char c)) s"

definition isWhiteSpace :: "16 word \<Rightarrow> bool" where
  "isWhiteSpace c \<longleftrightarrow>
     c \<in> {0x0009, 0x000A, 0x000B, 0x000C, 0x000D, 0x0020, 0x00A0, 0x1680,
           0x2028, 0x2029, 0x202F, 0x205F, 0x3000, 0xFEFF}
     \<or> (0x2000 \<le> c \<and> c \<le> 0x200A)"

definition js_trim :: "jsstring \<Rightarrow> jsstring" where
  "js_trim s = rev (dropWhile isWhiteSpace (rev (dropWhile isWhiteSpace s)))"

definition truthy :: "jsstring \<Rightarrow> bool" where
  "truthy s \<longleftrightarrow> s \<noteq> []"

section \<open>Response types (types/index.ts)\<close>

text \<open>
  The interfaces of the type module, field by field. A \<^verbatim>\<open>number\<close> that counts tokens,
  bytes or positions is an \<open>int\<close>; a score and a percentage are \<open>real\<close>; an optional
  field is an \<open>option\<close>. Field names shared by two interfaces carry a prefix in the
  later one (\<open>u_\<close> for UploadResponse, \<open>q_\<close> for QueryResponse).
\<close>

record TierInfo =
  tier :: nat
  label :: jsstring
  color :: jsstring
  description :: jsstring

record TokenBudgetAllocations =
  system_prompt :: int
  conversation_history :: int
  response_buffer :: int
  document_content :: int

record TokenBudgetDocument =
  original_tokens :: int
  allocated_tokens :: int
  max_tokens :: int
  utilization_pct :: real
  truncated :: bool

record TokenBudget =
  total_window :: int
  allocations :: TokenBudgetAllocations
  document :: TokenBudgetDocument

record UploadResponse =
  u_doc_id :: jsstring
  u_filename :: jsstring
  u_file_size :: int
  u_token_count :: int
  u_tier :: TierInfo
  u_budget :: TokenBudget
  u_mime_type :: "jsstring option"
  u_page_count :: "int option"
  u_row_count :: "int option"
  u_created_at :: jsstring

record ChunkInfo =
  index :: int
  tokens :: int
  score :: real

record QueryResponse =
  q_doc_id :: jsstring
  q_query :: jsstring
  q_tier :: int
  q_assembled_context :: jsstring
  q_token_count :: int
  q_chunks_used :: "ChunkInfo list"
  q_strategy_notes :: jsstring
  q_budget :: TokenBudget

section \<open>The API client (api/client.ts)\<close>

text \<open>
  Every call of the client is one POST through the axios instance (base URL \<^verbatim>\<open>/api\<close>).
  The network is a parameter: a function from the request to how the promise settles.
  A rejection carries the message of the \<^verbatim>\<open>Error\<close> thrown, or is some other value.
  Each client function returns the settlement together with the requests it issued.
\<close>

record File =
  f_name :: jsstring
  f_type :: jsstring
  f_size :: nat

record query_body =
  doc_id :: jsstring
  query :: jsstring
  top_k :: int

datatype payload = JsonBody query_body | FormData "(string \<times> File) list"

record http_request =
  url :: string
  body :: payload
  headers :: "(string \<times> string) list"

datatype 'a settled = Resolved 'a | RejectedError jsstring | RejectedOther

definition uploadDocument ::
  "(http_request \<Rightarrow> UploadResponse settled) \<Rightarrow> File \<Rightarrow> UploadResponse settled \<times> http_request list"
where
  "uploadDocument post file =
     (let form = FormData [(''file'', file)];
          req = \<lparr>url = ''/documents/upload'', body = form,
                 headers = [(''Content-Type'', ''multipart/form-data'')]\<rparr>
      in (post req, [req]))"

text \<open>
  \<^verbatim>\<open>queryDocument(docId, query, topK = 10)\<close>: an omitted third argument is \<open>None\<close>, and
  the default initialiser then supplies 10.
\<close>

definition queryDocument ::
  "(http_request \<Rightarrow> QueryResponse settled) \<Rightarrow> jsstring \<Rightarrow> jsstring \<Rightarrow> int option
     \<Rightarrow> QueryResponse settled \<times> http_request list"
where
  "queryDocument post docId q topK_arg =
     (let topK = (case topK_arg of None \<Rightarrow> 10 | Some k \<Rightarrow> k);
          req = \<lparr>url = ''/query/'',
                 body = JsonBody \<lparr>doc_id = docId, query = q, top_k = topK\<rparr>,
                 headers = []\<rparr>
      in (post req, [req]))"

section \<open>QueryInterface (components/QueryInterface.tsx)\<close>

text \<open>
  The component's four state variables, and \<open>handleQuery\<close> as a state transformer that
  also returns the requests it issued. The state setters before and after the awaited
  call are applied in the source's order; the \<^verbatim>\<open>finally\<close> block runs on both paths.
\<close>

record QueryInterface_state =
  st_query :: jsstring
  st_loading :: bool
  st_result :: "QueryResponse option"
  st_error :: "jsstring option"

definition handleQuery ::
  "(http_request \<Rightarrow> QueryResponse settled) \<Rightarrow> UploadResponse \<Rightarrow> QueryInterface_state
     \<Rightarrow> QueryInterface_state \<times> http_request list"
where
  "handleQuery post doc st =
     (if \<not> truthy (js_trim (st_query st)) then (st, [])
      else
        let st1 = st\<lparr>st_loading := True\<rparr>;
            st2 = st1\<lparr>st_error := None\<rparr>;
            (res, reqs) = queryDocument post (u_doc_id doc) (st_query st) None;
            st3 = (case res of
                     Resolved r \<Rightarrow> st2\<lparr>st_result := Some r\<rparr>
                   | RejectedError msg \<Rightarrow> st2\<lparr>st_error := Some msg\<rparr>
                   | RejectedOther \<Rightarrow> st2\<lparr>st_error := Some (js ''Query failed'')\<rparr>)
        in (st3\<lparr>st_loading := False\<rparr>, reqs))"

text \<open>The \<^verbatim>\<open>disabled\<close> attribute of the Search button.\<close>

definition search_disabled :: "QueryInterface_state \<Rightarrow> bool" where
  "search_disabled st \<longleftrightarrow> st_loading st \<or> \<not> truthy (js_trim (st_query st))"

section \<open>ChunkViewer (components/ChunkViewer.tsx)\<close>

text \<open>
  What the component renders, as a tree of the elements that carry data. A span keeps the
  number it shows (the source formats it with \<^verbatim>\<open>toLocaleString\<close> or \<^verbatim>\<open>toFixed(3)\<close>);
  each button of the tab bar has its tab, whether it is the selected one, and its label;
  the context pane has the preview, whether the ellipsis follows it, and the text of the
  expand button when there is one.
\<close>

datatype tab = chunks_tab | context_tab

datatype span =
    ChunkNumber int
  | TokenCount int
  | ScoreLabel real

datatype tab_label = ChunksUsed nat | AssembledContextLabel

datatype panel =
    NoChunks
  | ChunkRows "span list list"
  | ContextPane jsstring bool "string option"

record ChunkViewer_props =
  chunks :: "ChunkInfo list"
  assembledContext :: jsstring
  strategyNotes :: jsstring

record ChunkViewer_state =
  tab :: tab
  expanded :: bool

record ChunkViewer_view =
  tab_bar :: "(tab \<times> bool \<times> tab_label) list"
  strategy_box :: "jsstring option"
  main_panel :: panel

definition chunk_row :: "ChunkInfo \<Rightarrow> span list" where
  "chunk_row c =
     [ChunkNumber (index c), TokenCount (tokens c)]
     @ (if score c < 1 then [ScoreLabel (score c)] else [])"

definition ChunkViewer :: "ChunkViewer_props \<Rightarrow> ChunkViewer_state \<Rightarrow> ChunkViewer_view" where
  "ChunkViewer props st =
     (let contextPreview =
            (if expanded st then assembledContext props else take 800 (assembledContext props));
          canExpand = (length (assembledContext props) > 800)
      in \<lparr>tab_bar =
             map (\<lambda>t. (t, tab st = t,
                        (if t = chunks_tab then ChunksUsed (length (chunks props))
                         else AssembledContextLabel)))
                 [chunks_tab, context_tab],
           strategy_box = (if truthy (strategyNotes props) then Some (strategyNotes props) else None),
           main_panel =
             (if tab st = chunks_tab then
                (if length (chunks props) = 0 then NoChunks
                 else ChunkRows (map chunk_row (chunks props)))
              else
                ContextPane contextPreview (\<not> expanded st \<and> canExpand)
                  (if canExpand
                   then Some (if expanded st then ''Show less'' else ''Show full context'')
                   else None))\<rparr>)"

section \<open>FileUpload (components/FileUpload.tsx)\<close>

text \<open>
  The component keeps two state variables and hands \<open>onDrop\<close> and four options to the
  drop zone of react-dropzone. \<open>onDrop\<close> uploads the first accepted file, if there is one.
\<close>

definition ACCEPTED_TYPES :: "(string \<times> string list) list" where
  "ACCEPTED_TYPES =
     [(''text/plain'', [''.txt'', ''.md'']),
      (''application/pdf'', [''.pdf'']),
      (''application/vnd.openxmlformats-officedocument.wordprocessingml.document'', [''.docx'']),
      (''text/csv'', [''.csv'']),
      (''text/tab-separated-values'', [''.tsv'']),
      (''application/vnd.openxmlformats-officedocument.spreadsheetml.sheet'', [''.xlsx''])]"

record dropzone_options =
  accept :: "(string \<times> string list) list"
  maxFiles :: nat
  maxSize :: nat
  disabled :: bool

record FileUpload_state =
  uploading :: bool
  upload_error :: "jsstring option"

definition onDrop ::
  "(http_request \<Rightarrow> UploadResponse settled) \<Rightarrow> File list \<Rightarrow> FileUpload_state
     \<Rightarrow> FileUpload_state \<times> http_request list \<times> UploadResponse option"
where
  "onDrop post acceptedFiles st =
     (case acceptedFiles of
        [] \<Rightarrow> (st, [], None)
      | file # _ \<Rightarrow>
          let st1 = st\<lparr>uploading := True\<rparr>;
              st2 = st1\<lparr>upload_error := None\<rparr>;
              (res, reqs) = uploadDocument post file;
              (st3, uploaded) =
                (case res of
                   Resolved r \<Rightarrow> (st2, Some r)
                 | RejectedError msg \<Rightarrow> (st2\<lparr>upload_error := Some msg\<rparr>, None)
                 | RejectedOther \<Rightarrow>
                     (st2\<lparr>upload_error := Some (js ''Upload failed. Please try again.'')\<rparr>, None))
          in (st3\<lparr>uploading := False\<rparr>, reqs, uploaded))"

definition dropzone_config :: "FileUpload_state \<Rightarrow> dropzone_options" where
  "dropzone_config st =
     \<lparr>accept = ACCEPTED_TYPES, maxFiles = 1, maxSize = 50 * 1024 * 1024,
      disabled = uploading st\<rparr>"

text \<open>
  react-dropzone is a dependency of the front end. The definitions from \<open>toLowerCase\<close> to
  \<open>useDropzone_drop\<close> state what the library does with a drop under the options the
  component sets:
  \<^item> the library first reads the dropped files with its default \<^verbatim>\<open>getFilesFromEvent\<close>:
    a file whose \<^verbatim>\<open>type\<close> is empty and whose name has an extension gets the MIME type that
    the library's table \<^verbatim>\<open>COMMON_MIME_TYPES\<close> has for the lower-cased extension, and the
    thumbnail cache files of \<open>FILES_TO_IGNORE\<close> are left out. The table is a parameter
    \<open>tbl\<close> of the model;
  \<^item> \<^verbatim>\<open>accept\<close>: the table of the component is flattened to the list of its MIME types
    and extensions; a file passes when one entry matches it, an entry that starts with a
    dot against the end of the lower-cased file name, any other entry against the
    lower-cased MIME type;
  \<^item> \<^verbatim>\<open>maxSize\<close>: a file passes when its size is not above the limit;
  \<^item> \<^verbatim>\<open>maxFiles\<close>: when more files pass than the limit allows, none is accepted;
  \<^item> \<^verbatim>\<open>disabled\<close>: the drop is not handled at all (\<open>None\<close>).
  \<open>toLowerCase\<close> is written for the characters whose lower case is an ASCII letter (A to
  Z and the Kelvin sign); on the others it differs from JavaScript's only in characters
  outside ASCII, which no comparison below can match.
\<close>

definition toLowerCase :: "jsstring \<Rightarrow> jsstring" where
  "toLowerCase s =
     map (\<lambda>c. if 0x41 \<le> c \<and> c \<le> 0x5A then c + 0x20 else if c = 0x212A then 0x6B else c) s"

definition FILES_TO_IGNORE :: "string list" where
  "FILES_TO_IGNORE = [''.DS_Store'', ''Thumbs.db'']"

definition withMimeType :: "(jsstring \<Rightarrow> jsstring option) \<Rightarrow> File \<Rightarrow> File" where
  "withMimeType tbl file =
     (let name = f_name file;
          hasExtension = (truthy name \<and> 0x2E \<in> set name)
      in if hasExtension \<and> \<not> truthy (f_type file) then
           (let ext = toLowerCase (rev (takeWhile (\<lambda>c. c \<noteq> 0x2E) (rev name)))
            in case tbl ext of
                 None \<Rightarrow> file
               | Some ty \<Rightarrow> if truthy ty then file\<lparr>f_type := ty\<rparr> else file)
         else file)"

definition getFilesFromEvent :: "(jsstring \<Rightarrow> jsstring option) \<Rightarrow> File list \<Rightarrow> File list" where
  "getFilesFromEvent tbl files =
     filter (\<lambda>file. f_name file \<notin> set (map js FILES_TO_IGNORE)) (map (withMimeType tbl) files)"

definition endsWith :: "jsstring \<Rightarrow> jsstring \<Rightarrow> bool" where
  "endsWith s suf \<longleftrightarrow> length suf \<le> length s \<and> drop (length s - length suf) s = suf"

definition acceptPropAsAcceptAttr :: "(string \<times> string list) list \<Rightarrow> jsstring list" where
  "acceptPropAsAcceptAttr acc = concat (map (\<lambda>(mimeType, ext). js mimeType # map js ext) acc)"

definition accepts :: "File \<Rightarrow> jsstring list \<Rightarrow> bool" where
  "accepts file acceptedFiles =
     (if acceptedFiles = [] then True
      else
        let fileName = f_name file;
            mimeType = toLowerCase (f_type file);
            baseMimeType = takeWhile (\<lambda>c. c \<noteq> 0x2F) mimeType
        in list_ex (\<lambda>ty.
             let validType = toLowerCase (js_trim ty)
             in if take 1 validType = js ''.'' then endsWith (toLowerCase fileName) validType
                else if endsWith validType (js ''/*'')
                  then baseMimeType = takeWhile (\<lambda>c. c \<noteq> 0x2F) validType
                else mimeType = validType) acceptedFiles)"

definition fileAccepted :: "File \<Rightarrow> jsstring list \<Rightarrow> bool" where
  "fileAccepted file acceptAttr \<longleftrightarrow>
     f_type file = js ''application/x-moz-file'' \<or> accepts file acceptAttr"

definition fileMatchSize :: "File \<Rightarrow> nat \<Rightarrow> bool" where
  "fileMatchSize file maxSz \<longleftrightarrow> \<not> f_size file > maxSz"

definition useDropzone_drop ::
  "(jsstring \<Rightarrow> jsstring option) \<Rightarrow> dropzone_options \<Rightarrow> File list \<Rightarrow> File list option"
where
  "useDropzone_drop tbl opts dropped =
     (if disabled opts then None
      else
        let files = getFilesFromEvent tbl dropped;
            acceptAttr = acceptPropAsAcceptAttr (accept opts);
            acceptedFiles =
              filter (\<lambda>file. fileAccepted file acceptAttr \<and> fileMatchSize file (maxSize opts)) files
        in if maxFiles opts \<ge> 1 \<and> length acceptedFiles > maxFiles opts then Some []
           else Some acceptedFiles)"

text \<open>
  A drop on the component: the library reads and filters the files, then \<open>onDrop\<close> runs
  on the accepted ones. A file is the object the handlers see: the one that is uploaded
  is the one \<open>getFilesFromEvent\<close> returned.
\<close>

definition FileUpload_drop ::
  "(jsstring \<Rightarrow> jsstring option) \<Rightarrow> (http_request \<Rightarrow> UploadResponse settled) \<Rightarrow> File list
     \<Rightarrow> FileUpload_state \<Rightarrow> FileUpload_state \<times> http_request list \<times> UploadResponse option"
where
  "FileUpload_drop tbl post dropped st =
     (case useDropzone_drop tbl (dropzone_config st) dropped of
        None \<Rightarrow> (st, [], None)
      | Some acceptedFiles \<Rightarrow> onDrop post acceptedFiles st)"

text \<open>
  The vocabulary of the properties: the file's name ends in an extension of the table,
  its MIME type is a key of the table, its size is within 50 MiB, it passes (the three
  together, or Firefox's drag placeholder type in place of a listed one), the request
  that uploads it, and the requests a handler issued.
\<close>

definition has_listed_extension :: "File \<Rightarrow> bool" where
  "has_listed_extension file \<longleftrightarrow>
     list_ex (\<lambda>ext. endsWith (toLowerCase (f_name file)) (js ext))
       (concat (map snd ACCEPTED_TYPES))"


definition has_listed_mime_type :: "File \<Rightarrow> bool" where
  "has_listed_mime_type file \<longleftrightarrow>
     toLowerCase (f_type file) \<in> set (map (js \<circ> fst) ACCEPTED_TYPES)"

definition within_size_limit :: "File \<Rightarrow> bool" where
  "within_size_limit file \<longleftrightarrow> f_size file \<le> 50 * 1024 * 1024"

definition passes :: "File \<Rightarrow> bool" where
  "passes file \<longleftrightarrow>
     (f_type file = js ''application/x-moz-file'' \<or> has_listed_mime_type file
      \<or> has_listed_extension file) \<and> within_size_limit file"

definition upload_request :: "File \<Rightarrow> http_request" where
  "upload_request file =
     \<lparr>url = ''/documents/upload'', body = FormData [(''file'', file)],
      headers = [(''Content-Type'', ''multipart/form-data'')]\<rparr>"

definition requests_of :: "'s \<times> http_request list \<times> 'u \<Rightarrow> http_request list" where
  "requests_of r = fst (snd r)"

section \<open>TokenBudgetChart (components/TokenBudgetChart.tsx) and the tier legend (App.tsx)\<close>

text \<open>
  The chart draws one pie slice per allocation, in the order of \<open>LABELS\<close>, under a title
  with \<open>total_window\<close>; below it shows the utilization percentage and, when \<open>truncated\<close> is
  set, the warning that the content was truncated to fit.
\<close>

definition LABELS :: "string list" where
  "LABELS = [''Document'', ''System Prompt'', ''History'', ''Response Buffer'']"

record TokenBudgetChart_view =
  title_total :: int
  slices :: "(string \<times> int) list"
  utilization_shown :: real
  truncation_warning :: bool

definition TokenBudgetChart :: "TokenBudget \<Rightarrow> TokenBudgetChart_view" where
  "TokenBudgetChart budget =
     (let data =
            [(LABELS ! 0, document_content (allocations budget)),
             (LABELS ! 1, system_prompt (allocations budget)),
             (LABELS ! 2, conversation_history (allocations budget)),
             (LABELS ! 3, response_buffer (allocations budget))]
      in \<lparr>title_total = total_window budget,
          slices = data,
          utilization_shown = utilization_pct (document budget),
          truncation_warning = truncated (document budget)\<rparr>)"

text \<open>
  The legend that \<open>App\<close> renders under the header: tier, label, colour and range (the
  range texts with their comparison sign and dash written in ASCII).
\<close>

definition tier_legend :: "(nat \<times> string \<times> string \<times> string) list" where
  "tier_legend =
     [(1, ''Direct Injection'', ''#22c55e'', ''<=12K tokens''),
      (2, ''Smart Trimming'', ''#3b82f6'', ''12-25K tokens''),
      (3, ''Strategic Chunking'', ''#f59e0b'', ''25-50K tokens''),
      (4, ''RAG Retrieval'', ''#ef4444'', ''>50K tokens'')]"

section \<open>The context-construction engine\<close>

text \<open>
  The upload and query responses are produced by the back end (the budget allocator, the
  tier classifier and the context assembler), whose code is not among the source files;
  the front end only declares the types of what they return. The definitions of this
  section are written from the specification and from the README, each with the
  sentences it follows.
\<close>

subsection \<open>Budget allocator\<close>

text \<open>
  The configuration of section 6: \<^verbatim>\<open>TOTAL_CONTEXT_WINDOW\<close> and the three reserved roles,
  with their defaults 200 000, 2 000, 10 000 and 4 000.
\<close>

record budget_config =
  TOTAL_CONTEXT_WINDOW :: int
  RESERVED_SYSTEM_TOKENS :: int
  RESERVED_HISTORY_TOKENS :: int
  RESERVED_RESPONSE_TOKENS :: int

definition default_budget_config :: budget_config where
  "default_budget_config =
     \<lparr>TOTAL_CONTEXT_WINDOW = 200000, RESERVED_SYSTEM_TOKENS = 2000,
      RESERVED_HISTORY_TOKENS = 10000, RESERVED_RESPONSE_TOKENS = 4000\<rparr>"

text \<open>
  Modelled from the spec: the remainder of the window, missing with the budget allocator
  (\<^verbatim>\<open>budget_allocator.py\<close>). Section 4.3 writes it \<open>W - S - H - B\<close>.
\<close>

definition remainder :: "budget_config \<Rightarrow> int" where
  "remainder cfg =
     TOTAL_CONTEXT_WINDOW cfg - RESERVED_SYSTEM_TOKENS cfg - RESERVED_HISTORY_TOKENS cfg
       - RESERVED_RESPONSE_TOKENS cfg"

text \<open>
  Modelled from the spec: the budget allocator (\<^verbatim>\<open>budget_allocator.py\<close>), which is
  missing; the record it fills is the \<open>TokenBudget\<close> interface of the type module.
  \<^item> Section 4.3: given \<open>W\<close>, the reserved \<open>S\<close>, \<open>H\<close>, \<open>B\<close> and a desired document
    length \<open>d_req\<close>, \<open>d_granted = min(d_req, W - S - H - B)\<close>,
    \<open>truncated = d_granted < d_req\<close>, and the utilization percentage is
    \<open>round(100 * d_granted / max(d_req, 1))\<close> (\<open>round\<close> is rounding to the nearest
    integer, a half going up).
  \<^item> Section 3: the fixed allocations are \<open>S\<close>, \<open>H\<close> and \<open>B\<close>, and the document
    allocation \<open>D\<close> is \<open>W - S - H - B\<close> clamped to at least 0. It is the
    \<open>document_content\<close> of the allocations, and the most a document can be granted
    (\<open>max_tokens\<close>).
\<close>

definition allocate :: "budget_config \<Rightarrow> int \<Rightarrow> TokenBudget" where
  "allocate cfg d_req =
     (let d_granted = min d_req (remainder cfg)
      in \<lparr>total_window = TOTAL_CONTEXT_WINDOW cfg,
          allocations =
            \<lparr>system_prompt = RESERVED_SYSTEM_TOKENS cfg,
             conversation_history = RESERVED_HISTORY_TOKENS cfg,
             response_buffer = RESERVED_RESPONSE_TOKENS cfg,
             document_content = max 0 (remainder cfg)\<rparr>,
          document =
            \<lparr>original_tokens = d_req,
             allocated_tokens = d_granted,
             max_tokens = max 0 (remainder cfg),
             utilization_pct =
               of_int (round (100 * real_of_int d_granted / real_of_int (max d_req 1))),
             truncated = (d_granted < d_req)\<rparr>\<rparr>)"


subsection \<open>Tier classifier\<close>

text \<open>
  The thresholds of section 6 (\<^verbatim>\<open>TIER1_MAX_TOKENS\<close>, \<^verbatim>\<open>TIER2_MAX_TOKENS\<close>,
  \<^verbatim>\<open>TIER3_MAX_TOKENS\<close>) with their defaults; the README's tier table and the legend of
  \<^verbatim>\<open>App.tsx\<close> show the same ranges.
\<close>

record tier_thresholds =
  TIER1_MAX_TOKENS :: int
  TIER2_MAX_TOKENS :: int
  TIER3_MAX_TOKENS :: int

definition default_thresholds :: tier_thresholds where
  "default_thresholds =
     \<lparr>TIER1_MAX_TOKENS = 12000, TIER2_MAX_TOKENS = 25000, TIER3_MAX_TOKENS = 50000\<rparr>"

text \<open>
  Modelled from the spec: the tier classifier (\<^verbatim>\<open>tier_classifier.py\<close>), which is missing.
  Section 3: the tier is 1 if the token count is at most the first threshold, 2 if at
  most the second, 3 if at most the third, 4 otherwise.
\<close>

definition classify_with :: "tier_thresholds \<Rightarrow> int \<Rightarrow> nat" where
  "classify_with th n =
     (if n \<le> TIER1_MAX_TOKENS th then 1
      else if n \<le> TIER2_MAX_TOKENS th then 2
      else if n \<le> TIER3_MAX_TOKENS th then 3
      else 4)"

text \<open>
  Modelled from the spec: \<open>classify\<close> of section 4.4 under the default thresholds.
\<close>

definition classify :: "int \<Rightarrow> nat" where
  "classify n = classify_with default_thresholds n"

subsection \<open>Context assembler\<close>

text \<open>
  The Document record of section 3 with the attributes the assembler reads (the canonical
  text is UTF-8, a list of bytes), and the result of section 4.10: the assembled context,
  its token count, the chunks used, the strategy notes and the resolved budget.
\<close>

record Document =
  doc_ident :: string
  doc_filename :: string
  canonical_text :: string
  doc_token_count :: int
  doc_tier :: nat

record AssembledContext =
  assembled_context :: string
  context_tokens :: int
  chunks_used :: "ChunkInfo list"
  strategy_notes :: string
  resolved_budget :: TokenBudget

text \<open>
  Modelled from the spec: the tier-1 strategy of the context assembler
  (\<^verbatim>\<open>context_assembler.py\<close>), which is missing. Section 4.10: emit the canonical text
  verbatim, \<open>chunks_used\<close> is empty, the notes are
  \<^verbatim>\<open>Full document injected directly.\<close>, and the budget is resolved for the document's
  token count.
\<close>

definition assemble_tier1 :: "budget_config \<Rightarrow> Document \<Rightarrow> string \<Rightarrow> AssembledContext" where
  "assemble_tier1 cfg doc q =
     \<lparr>assembled_context = canonical_text doc,
      context_tokens = doc_token_count doc,
      chunks_used = [],
      strategy_notes = ''Full document injected directly.'',
      resolved_budget = allocate cfg (doc_token_count doc)\<rparr>"

text \<open>
  Modelled from the spec: the dispatcher of the context assembler, which is missing.
  Sections 4.10 and 9: the assembler is a thin dispatcher on the document's tier, each
  tier's strategy being a function of the document, the query (with \<open>top_k\<close>) and the
  budget. The strategies of tiers 2 to 4 (trimming, BM25 ranking and vector retrieval,
  all over the tokenizer) are parameters here.
\<close>

definition assemble ::
  "(budget_config \<Rightarrow> Document \<Rightarrow> string \<Rightarrow> nat \<Rightarrow> AssembledContext)
   \<Rightarrow> (budget_config \<Rightarrow> Document \<Rightarrow> string \<Rightarrow> nat \<Rightarrow> AssembledContext)
   \<Rightarrow> (budget_config \<Rightarrow> Document \<Rightarrow> string \<Rightarrow> nat \<Rightarrow> AssembledContext)
   \<Rightarrow> budget_config \<Rightarrow> Document \<Rightarrow> string \<Rightarrow> nat \<Rightarrow> AssembledContext"
where
  "assemble tier2 tier3 tier4 cfg doc q topk =
     (if doc_tier doc = 1 then assemble_tier1 cfg doc q
      else if doc_tier doc = 2 then tier2 cfg doc q topk
      else if doc_tier doc = 3 then tier3 cfg doc q topk
      else tier4 cfg doc q topk)"

section \<open>Sample values\<close>

text \<open>
  The upload response and the chunk list printed in the README's API reference (the
  budget with the \<open>document\<close> part of the type module filled in, the second chunk's
  score replaced by a BM25 score above 1), and a QueryInterface state whose query box
  holds two spaces.
\<close>

definition readme_budget :: TokenBudget where
  "readme_budget =
     \<lparr>total_window = 200000,
      allocations = \<lparr>system_prompt = 2000, conversation_history = 10000,
                     response_buffer = 4000, document_content = 34200\<rparr>,
      document = \<lparr>original_tokens = 34200, allocated_tokens = 34200, max_tokens = 184000,
                  utilization_pct = 100, truncated = False\<rparr>\<rparr>"

definition readme_upload :: UploadResponse where
  "readme_upload =
     \<lparr>u_doc_id = js ''a3f2c1d0'', u_filename = js ''research_paper.pdf'',
      u_file_size = 142680, u_token_count = 34200,
      u_tier = \<lparr>tier = 3, label = js ''Strategic Chunking'', color = js ''#f59e0b'',
                description = js ''Large document.''\<rparr>,
      u_budget = readme_budget,
      u_mime_type = None, u_page_count = None, u_row_count = None,
      u_created_at = js ''2025''\<rparr>"

definition readme_viewer_props :: ChunkViewer_props where
  "readme_viewer_props =
     \<lparr>chunks = [\<lparr>index = 4, tokens = 498, score = 0.8821\<rparr>,
                \<lparr>index = 7, tokens = 512, score = 7.25\<rparr>],
      assembledContext = js ''...'',
      strategyNotes = js ''Top 10 selected via BM25 ranking.''\<rparr>"

definition blank_state :: QueryInterface_state where
  "blank_state =
     \<lparr>st_query = js ''  '', st_loading = False, st_result = None, st_error = None\<rparr>"

text \<open>
  Two files for the drop zone, a PDF of the README's size and a plain-text file whose
  name ends in \<^verbatim>\<open>.text\<close> (browsers report \<^verbatim>\<open>text/plain\<close> for it), and the component
  state between two uploads.
\<close>

definition paper_pdf :: File where
  "paper_pdf =
     \<lparr>f_name = js ''research_paper.pdf'', f_type = js ''application/pdf'', f_size = 142680\<rparr>"

definition notes_text :: File where
  "notes_text = \<lparr>f_name = js ''notes.text'', f_type = js ''text/plain'', f_size = 2048\<rparr>"

text \<open>
  A log file as the operating system hands it over, with no MIME type, a thumbnail cache
  file, and the entries of the library's extension table that these samples meet.
\<close>

definition server_log :: File where
  "server_log = \<lparr>f_name = js ''server.log'', f_type = js [], f_size = 4096\<rparr>"

definition thumbs_db :: File where
  "thumbs_db = \<lparr>f_name = js ''Thumbs.db'', f_type = js ''text/plain'', f_size = 4096\<rparr>"




text \<open>
  The first end-to-end scenario of the specification: a short text of 8 tokens in tier 1.
\<close>

definition hello_doc :: Document where
  "hello_doc =
     \<lparr>doc_ident = ''d1'', doc_filename = ''hello.txt'',
      canonical_text = ''Hello world. This is a test.'',
      doc_token_count = 8, doc_tier = 1\<rparr>"

section \<open>Properties of the API client and the components\<close>

text \<open>
  C8. A call \<^verbatim>\<open>queryDocument(docId, query)\<close> without the third argument issues exactly
  one request, a POST to \<^verbatim>\<open>/query/\<close> whose body is
  \<^verbatim>\<open>{doc_id: docId, query: query, top_k: 10}\<close>: the default \<open>top_k\<close> is 10.
\<close>

theorem queryDocument_default_top_k:
  "snd (queryDocument post docId q None) =
     [\<lparr>url = ''/query/'',
       body = JsonBody \<lparr>doc_id = docId, query = q, top_k = 10\<rparr>,
       headers = []\<rparr>]"
  by (simp add: queryDocument_def Let_def)

text \<open>
  C10. When the trimmed query is empty, \<open>handleQuery\<close> returns at once: it issues no
  request and leaves the whole component state (query, loading, result, error) as it was;
  the Search button is disabled for the same input.
\<close>

theorem handleQuery_blank_query:
  assumes "js_trim (st_query st) = []"
  shows "handleQuery post doc st = (st, []) \<and> search_disabled st"
  using assms by (simp add: handleQuery_def search_disabled_def truthy_def)

theorem handleQuery_blank_query_witness:
  "js_trim (st_query blank_state) = []
   \<and> handleQuery (\<lambda>r. RejectedOther) readme_upload blank_state = (blank_state, [])
   \<and> search_disabled blank_state"
proof -
  have blank: "js_trim (st_query blank_state) = []"
    by (simp add: blank_state_def js_trim_def js_def isWhiteSpace_def)
  from handleQuery_blank_query [OF blank, of "\<lambda>r. RejectedOther" readme_upload] blank
  show ?thesis by simp
qed

text \<open>
  C9. In the chunks tab every entry of \<open>chunks\<close> gets a row that shows its chunk index
  and its token count; the row carries a score label exactly when the entry's score is
  below 1, and then the label shows that score. An entry whose score is 1 or more is
  shown without a score.
\<close>

theorem ChunkViewer_score_label:
  assumes "tab st = chunks_tab" and "i < length (chunks props)"
  shows "\<exists>rows. main_panel (ChunkViewer props st) = ChunkRows rows
           \<and> length rows = length (chunks props)
           \<and> ChunkNumber (index (chunks props ! i)) \<in> set (rows ! i)
           \<and> TokenCount (tokens (chunks props ! i)) \<in> set (rows ! i)
           \<and> ((\<exists>s. ScoreLabel s \<in> set (rows ! i)) \<longleftrightarrow> score (chunks props ! i) < 1)
           \<and> (\<forall>s. ScoreLabel s \<in> set (rows ! i) \<longrightarrow> s = score (chunks props ! i))"
proof -
  from assms(2) have nonempty: "chunks props \<noteq> []" by auto
  let ?rows = "map chunk_row (chunks props)"
  have panel: "main_panel (ChunkViewer props st) = ChunkRows ?rows"
    using assms(1) nonempty by (simp add: ChunkViewer_def Let_def)
  have row: "?rows ! i = chunk_row (chunks props ! i)"
    using assms(2) by simp
  show ?thesis
    using panel row by (intro exI [of _ ?rows]) (simp add: chunk_row_def)
qed

theorem ChunkViewer_score_label_witness:
  "tab \<lparr>tab = chunks_tab, expanded = False\<rparr> = chunks_tab
   \<and> 1 < length (chunks readme_viewer_props)
   \<and> (\<exists>rows. main_panel (ChunkViewer readme_viewer_props \<lparr>tab = chunks_tab, expanded = False\<rparr>)
                 = ChunkRows rows
          \<and> \<not> (\<exists>s. ScoreLabel s \<in> set (rows ! 1))
          \<and> \<not> score (chunks readme_viewer_props ! 1) < 1)"
proof -
  have t: "tab \<lparr>tab = chunks_tab, expanded = False\<rparr> = chunks_tab" by simp
  have l: "1 < length (chunks readme_viewer_props)"
    by (simp add: readme_viewer_props_def)
  have s: "\<not> score (chunks readme_viewer_props ! 1) < 1"
    by (simp add: readme_viewer_props_def)
  from ChunkViewer_score_label [OF t l] s t l show ?thesis by auto
qed


subsection \<open>The drop zone\<close>

text \<open>
  With the component's options, a file that the library has read from the drop passes
  its filter exactly when it is within the size limit and its MIME type or its extension
  is in the table; \<open>onDrop\<close> issues one upload request when it is handed a file and none
  otherwise. Reading a file from the drop changes neither its name nor its size.
\<close>

lemma fileAccepted_iff:
  "fileAccepted file (acceptPropAsAcceptAttr ACCEPTED_TYPES) \<longleftrightarrow>
     f_type file = js ''application/x-moz-file'' \<or> has_listed_mime_type file
     \<or> has_listed_extension file"
  unfolding fileAccepted_def accepts_def acceptPropAsAcceptAttr_def ACCEPTED_TYPES_def
     has_listed_mime_type_def has_listed_extension_def
  apply (simp add: Let_def js_trim_def js_def isWhiteSpace_def toLowerCase_def endsWith_def)
  apply blast
  done

lemma requests_onDrop:
  "requests_of (onDrop post acceptedFiles st) =
     (case acceptedFiles of [] \<Rightarrow> [] | file # _ \<Rightarrow> [upload_request file])"
  by (simp add: requests_of_def onDrop_def uploadDocument_def upload_request_def Let_def
      split: list.splits settled.splits prod.splits)

lemma passes_eq:
  "(\<lambda>file. fileAccepted file (acceptPropAsAcceptAttr ACCEPTED_TYPES)
            \<and> fileMatchSize file (50 * 1024 * 1024)) = passes"
  by (rule ext) (simp only: fileAccepted_iff passes_def fileMatchSize_def within_size_limit_def not_less)

lemma useDropzone_drop_config:
  "useDropzone_drop tbl (dropzone_config st) dropped =
     (if uploading st then None
      else if length (filter passes (getFilesFromEvent tbl dropped)) > 1 then Some []
      else Some (filter passes (getFilesFromEvent tbl dropped)))"
  unfolding useDropzone_drop_def dropzone_config_def Let_def
  by (simp only: dropzone_options.simps passes_eq) simp

lemma requests_FileUpload_drop:
  "requests_of (FileUpload_drop tbl post dropped st) =
     (if uploading st then []
      else case filter passes (getFilesFromEvent tbl dropped) of
             [file] \<Rightarrow> [upload_request file] | _ \<Rightarrow> [])"
proof (cases "uploading st")
  case True
  then show ?thesis
    by (simp add: FileUpload_drop_def useDropzone_drop_config requests_of_def)
next
  case False
  show ?thesis
  proof (cases "filter passes (getFilesFromEvent tbl dropped)")
    case Nil
    with False show ?thesis
      by (simp add: FileUpload_drop_def useDropzone_drop_config requests_onDrop)
  next
    case (Cons f fs)
    with False show ?thesis
      by (cases fs) (simp_all add: FileUpload_drop_def useDropzone_drop_config requests_onDrop)
  qed
qed

lemma withMimeType_name_size:
  "f_name (withMimeType tbl file) = f_name file" "f_size (withMimeType tbl file) = f_size file"
  by (simp_all add: withMimeType_def Let_def split: option.splits)


lemma getFilesFromEvent_single:
  "getFilesFromEvent tbl [file] =
     (if f_name file \<in> set (map js FILES_TO_IGNORE) then [] else [withMimeType tbl file])"
  by (simp add: getFilesFromEvent_def withMimeType_name_size)






lemma not_ignored_samples:
  "f_name notes_text \<notin> set (map js FILES_TO_IGNORE)"
  "f_name paper_pdf \<notin> set (map js FILES_TO_IGNORE)"
  "f_name server_log \<notin> set (map js FILES_TO_IGNORE)"
  "f_name thumbs_db \<in> set (map js FILES_TO_IGNORE)"
  by (simp_all add: FILES_TO_IGNORE_def notes_text_def paper_pdf_def server_log_def thumbs_db_def
      js_def)


lemma thumbs_db_ignored:
  "requests_of (FileUpload_drop tbl post [thumbs_db] st) = []"
  using not_ignored_samples(4)
  by (simp add: requests_FileUpload_drop getFilesFromEvent_single)




section \<open>Properties of the context-construction engine\<close>

text \<open>
  Every tier the classifier returns has an entry in the legend of \<open>App\<close>, and the chart
  drawn for an allocator's record shows the warning exactly when the grant is below the
  request.
\<close>

lemma classify_with_in_legend: "classify_with th n \<in> set (map fst tier_legend)"
  by (simp add: classify_with_def tier_legend_def)

lemma TokenBudgetChart_allocate:
  "title_total (TokenBudgetChart (allocate cfg d_req)) = TOTAL_CONTEXT_WINDOW cfg
   \<and> map snd (slices (TokenBudgetChart (allocate cfg d_req)))
       = [max 0 (remainder cfg), RESERVED_SYSTEM_TOKENS cfg, RESERVED_HISTORY_TOKENS cfg,
          RESERVED_RESPONSE_TOKENS cfg]
   \<and> truncation_warning (TokenBudgetChart (allocate cfg d_req)) = (remainder cfg < d_req)"
  by (auto simp add: TokenBudgetChart_def allocate_def Let_def)

text \<open>
  C3. Under the default thresholds \<open>classify\<close> returns tier 1 up to 12 000 tokens, tier 2
  above 12 000 and up to 25 000, tier 3 above 25 000 and up to 50 000, and tier 4 above
  50 000; it is monotone: \<open>n1 \<le> n2\<close> implies \<open>classify n1 \<le> classify n2\<close>.
\<close>

theorem classify_default_thresholds:
  "(n \<le> 12000 \<longrightarrow> classify n = 1)
   \<and> (12000 < n \<and> n \<le> 25000 \<longrightarrow> classify n = 2)
   \<and> (25000 < n \<and> n \<le> 50000 \<longrightarrow> classify n = 3)
   \<and> (50000 < n \<longrightarrow> classify n = 4)
   \<and> (n1 \<le> n2 \<longrightarrow> classify n1 \<le> classify n2)"
  by (simp add: classify_def classify_with_def default_thresholds_def)

theorem classify_default_thresholds_witness:
  "classify 12000 = 1 \<and> classify 12001 = 2 \<and> classify 25000 = 2 \<and> classify 25001 = 3
   \<and> classify 50000 = 3 \<and> classify 50001 = 4 \<and> classify 0 = 1
   \<and> (12000::int) \<le> 50001 \<and> classify 12000 \<le> classify 50001"
  using classify_default_thresholds [of 12000 12000 50001]
    classify_default_thresholds [of 12001]
    classify_default_thresholds [of 25000]
    classify_default_thresholds [of 25001]
    classify_default_thresholds [of 50000]
    classify_default_thresholds [of 50001]
    classify_default_thresholds [of 0]
  by simp

text \<open>
  C4. For every window \<open>W\<close>, reserved amounts \<open>S\<close>, \<open>H\<close>, \<open>B\<close> and requested length
  \<open>d_req\<close>, the allocator grants \<open>min(d_req, W - S - H - B)\<close>, sets \<open>truncated\<close> exactly
  when the grant is below the request, and reports the utilization
  \<open>round(100 * d_granted / max(d_req, 1))\<close>.
\<close>

theorem allocate_grant:
  "allocated_tokens (document (allocate cfg d_req))
     = min d_req (TOTAL_CONTEXT_WINDOW cfg - RESERVED_SYSTEM_TOKENS cfg
                    - RESERVED_HISTORY_TOKENS cfg - RESERVED_RESPONSE_TOKENS cfg)
   \<and> truncated (document (allocate cfg d_req))
       = (allocated_tokens (document (allocate cfg d_req)) < d_req)
   \<and> utilization_pct (document (allocate cfg d_req))
       = of_int (round (100 * real_of_int (allocated_tokens (document (allocate cfg d_req)))
                          / real_of_int (max d_req 1)))"
  by (simp add: allocate_def remainder_def Let_def)




text \<open>
  C5. For a tier-1 document and any query, the assembled context is the document's
  canonical text and \<open>chunks_used\<close> is the empty list.
\<close>

theorem assemble_tier1_round_trip:
  assumes "doc_tier doc = 1"
  shows "assembled_context (assemble tier2 tier3 tier4 cfg doc q topk) = canonical_text doc
         \<and> chunks_used (assemble tier2 tier3 tier4 cfg doc q topk) = []"
  using assms by (simp add: assemble_def assemble_tier1_def)

theorem assemble_tier1_round_trip_witness:
  "doc_tier hello_doc = 1
   \<and> assembled_context
        (assemble (\<lambda>cfg doc q k. assemble_tier1 cfg doc q) (\<lambda>cfg doc q k. assemble_tier1 cfg doc q)
           (\<lambda>cfg doc q k. assemble_tier1 cfg doc q) default_budget_config hello_doc ''test'' 10)
       = ''Hello world. This is a test.''
   \<and> chunks_used
        (assemble (\<lambda>cfg doc q k. assemble_tier1 cfg doc q) (\<lambda>cfg doc q k. assemble_tier1 cfg doc q)
           (\<lambda>cfg doc q k. assemble_tier1 cfg doc q) default_budget_config hello_doc ''test'' 10)
       = []"
proof -
  have t1: "doc_tier hello_doc = 1" by (simp add: hello_doc_def)
  from assemble_tier1_round_trip [OF t1] t1 show ?thesis by (simp add: hello_doc_def)
qed

end
